theory Spec2Isabelle
  imports Main "HOL-Library.Sublist"
begin

section \<open>Python values used by \<open>ufactory.py\<close>\<close>

text \<open>
  The module builds \<open>xml.etree\<close> elements. An element has a tag, an attribute dictionary
  (every dictionary literal of the module has distinct keys, kept here in the order written),
  a text that is \<open>None\<close> until it is assigned, and the list of appended children.
\<close>

datatype element =
  Element (elem_tag: string) (elem_attrib: "(string \<times> string) list")
          (elem_text: "string option") (elem_children: "element list")

text \<open>
  The exceptions the module can raise: a global name that is not bound, and an attribute
  that the receiver does not have (\<open>None.replace\<close>, or an attribute of an imported object).
\<close>

datatype error = NameError string | AttributeError string

definition bindE :: "error + 'a \<Rightarrow> ('a \<Rightarrow> error + 'b) \<Rightarrow> error + 'b" where
  "bindE m f = (case m of Inl e \<Rightarrow> Inl e | Inr x \<Rightarrow> f x)"

text \<open>A \<open>for\<close> loop that appends one computed item per iteration; the first exception ends it.\<close>

fun mapE :: "('a \<Rightarrow> error + 'b) \<Rightarrow> 'a list \<Rightarrow> error + 'b list" where
  "mapE f [] = Inr []"
| "mapE f (x # xs) = bindE (f x) (\<lambda>y. bindE (mapE f xs) (\<lambda>ys. Inr (y # ys)))"

subsection \<open>\<open>str(int)\<close>\<close>

definition digit_char :: "nat \<Rightarrow> char" where
  "digit_char d = ''0123456789'' ! d"

fun str_nat :: "nat \<Rightarrow> string" where
  "str_nat n = (if n < 10 then [digit_char n] else str_nat (n div 10) @ [digit_char (n mod 10)])"

declare str_nat.simps [simp del]

definition py_str :: "int \<Rightarrow> string" where
  "py_str i = (if i < 0 then CHR ''-'' # str_nat (nat (- i)) else str_nat (nat i))"

text \<open>The f-string \<open>f'id{n}'\<close>.\<close>

definition id_str :: "int \<Rightarrow> string" where
  "id_str n = ''id'' @ py_str n"

subsection \<open>\<open>str.replace\<close>\<close>

text \<open>
  \<open>s.replace(old, new)\<close> replaces every occurrence of \<open>old\<close>, scanning from the left and
  continuing after each replaced occurrence. For an empty \<open>old\<close> Python puts \<open>new\<close> before
  every character and at the end.
\<close>

function replace_ne :: "string \<Rightarrow> string \<Rightarrow> string \<Rightarrow> string" where
  "replace_ne old new s =
     (if s = [] \<or> old = [] then s
      else if prefix old s then new @ replace_ne old new (drop (length old) s)
      else hd s # replace_ne old new (tl s))"
  by pat_completeness auto
termination
  by (relation "measure (\<lambda>(old, new, s). length s)") auto

declare replace_ne.simps [simp del]

definition replace :: "string \<Rightarrow> string \<Rightarrow> string \<Rightarrow> string" where
  "replace s old new =
     (if old = [] then new @ concat (map (\<lambda>c. c # new) s) else replace_ne old new s)"

text \<open>The method call \<open>x.replace(old, new)\<close> where \<open>x\<close> may be \<open>None\<close>.\<close>

definition py_replace :: "string option \<Rightarrow> string \<Rightarrow> string \<Rightarrow> error + string" where
  "py_replace x old new =
     (case x of None \<Rightarrow> Inl (AttributeError ''replace'') | Some s \<Rightarrow> Inr (replace s old new))"

section \<open>The node builders of class \<open>UFactory\<close>\<close>

text \<open>The static method \<open>declaration\<close> (the name is reserved in Isabelle).\<close>

definition declaration_elem :: "string \<Rightarrow> element" where
  "declaration_elem decl = Element ''declaration'' [] (Some decl) []"

text \<open>The private static method \<open>__query\<close> (stored in the class as \<open>_UFactory__query\<close>).\<close>

definition query :: "string \<Rightarrow> element" where
  "query q =
     Element ''query'' [] None [Element ''formula'' [] (Some q) [], Element ''comment'' [] None []]"

definition location ::
  "int \<Rightarrow> int \<Rightarrow> int \<Rightarrow> string option \<Rightarrow> string option \<Rightarrow> bool \<Rightarrow> element" where
  "location location_id pos_x pos_y invariant name is_committed =
     Element ''location''
       [(''id'', id_str location_id), (''x'', py_str pos_x), (''y'', py_str pos_y)] None
       ((case name of None \<Rightarrow> []
         | Some n \<Rightarrow> [Element ''name'' [(''x'', py_str pos_x), (''y'', py_str (pos_y - 20))]
                        (Some n) []]) @
        (case invariant of None \<Rightarrow> []
         | Some v \<Rightarrow> [Element ''label'' [(''kind'', ''invariant''), (''x'', py_str pos_x),
                                         (''y'', py_str (pos_y - 40))] (Some v) []]) @
        (if is_committed then [Element ''committed'' [] None []] else []))"

definition transition ::
  "int \<Rightarrow> int \<Rightarrow> int \<Rightarrow> int \<Rightarrow> string option \<Rightarrow> string option \<Rightarrow> string option \<Rightarrow> element"
  where
  "transition sourceID targetID pos_x pos_y guard sync clock_reset =
     Element ''transition'' [] None
       ([Element ''source'' [(''ref'', id_str sourceID)] None [],
         Element ''target'' [(''ref'', id_str targetID)] None []] @
        (case guard of None \<Rightarrow> []
         | Some gd \<Rightarrow> [Element ''label'' [(''kind'', ''guard''), (''x'', py_str pos_x),
                                          (''y'', py_str pos_y)] (Some gd) []]) @
        (case sync of None \<Rightarrow> []
         | Some sy \<Rightarrow> [Element ''label'' [(''kind'', ''synchronisation''), (''x'', py_str pos_x),
                                          (''y'', py_str (pos_y - 30))] (Some sy) []]) @
        (case clock_reset of None \<Rightarrow> []
         | Some cr \<Rightarrow> [Element ''label'' [(''kind'', ''assignment''), (''x'', py_str pos_x),
                                          (''y'', py_str (pos_y - 60))] (Some cr) []]))"

text \<open>
  \<open>template\<close>: the text of the \<open>declaration\<close> child is assigned from \<open>parameter\<close>
  (source line 203), as modelled.
\<close>

definition template ::
  "string \<Rightarrow> element list \<Rightarrow> int \<Rightarrow> element list \<Rightarrow> string option \<Rightarrow> string option \<Rightarrow> element"
  where
  "template name locations init_id transitions parameter decl =
     Element ''template'' [] None
       ([Element ''name'' [] (Some name) []] @
        (case parameter of None \<Rightarrow> [] | Some p \<Rightarrow> [Element ''parameter'' [] (Some p) []]) @
        (case decl of None \<Rightarrow> [] | Some d \<Rightarrow> [Element ''declaration'' [] parameter []]) @
        locations @
        [Element ''init'' [(''ref'', id_str init_id)] None []] @
        transitions)"

section \<open>Global names\<close>

text \<open>
  The bodies of \<open>queries\<close>, \<open>monitor\<close>, \<open>strict_monitor\<close>, \<open>monitor_allpatterns\<close> and
  \<open>input\<close> reach the builders through the global name \<open>UppaalFactory\<close>, which Python
  looks up in the module's namespace each time the expression is evaluated. The namespace
  is therefore an argument of these functions. Its values are the objects the module itself
  binds: the three names imported from \<open>typing\<close>, the module \<open>ET\<close> and the class.
\<close>

datatype pyobj = Typing_List | Typing_Tuple | Typing_Dict | Module_ET | Class_UFactory

type_synonym globals = "string \<Rightarrow> pyobj option"

text \<open>The namespace after the module has been executed: lines 1, 2 and 5 bind five names.\<close>

definition module_globals :: globals where
  "module_globals =
     [''List'' \<mapsto> Typing_List, ''Tuple'' \<mapsto> Typing_Tuple, ''Dict'' \<mapsto> Typing_Dict,
      ''ET'' \<mapsto> Module_ET, ''UFactory'' \<mapsto> Class_UFactory]"

definition lookup_global :: "globals \<Rightarrow> string \<Rightarrow> error + pyobj" where
  "lookup_global g name = (case g name of None \<Rightarrow> Inl (NameError name) | Some v \<Rightarrow> Inr v)"

text \<open>
  Attribute access on the looked-up object: the class has the static methods, the imported
  objects have none of these attributes.
\<close>

definition getattr :: "pyobj \<Rightarrow> string \<Rightarrow> 'a \<Rightarrow> error + 'a" where
  "getattr obj name method =
     (case obj of Class_UFactory \<Rightarrow> Inr method | _ \<Rightarrow> Inl (AttributeError name))"

text \<open>
  The expression \<open>UppaalFactory.name\<close>: the global is looked up, then the attribute. The
  last argument is the static method the class stores under that name (the class docstring
  gives the usage as \<open>UppaalFactory.function(xxx)\<close>).
\<close>

definition UppaalFactory :: "globals \<Rightarrow> string \<Rightarrow> 'a \<Rightarrow> error + 'a" where
  "UppaalFactory g name method =
     bindE (lookup_global g ''UppaalFactory'') (\<lambda>obj. getattr obj name method)"

section \<open>The synthesis operations\<close>

definition queries :: "globals \<Rightarrow> string list \<Rightarrow> error + element" where
  "queries g qs =
     bindE (mapE (\<lambda>q. bindE (UppaalFactory g ''_UFactory__query'' query) (\<lambda>f. Inr (f q))) qs)
       (\<lambda>es. Inr (Element ''queries'' [] None es))"

text \<open>An observation tuple \<open>(signal, guard, inv)\<close>; each component may be \<open>None\<close>.\<close>

type_synonym signal = "string option \<times> string option \<times> string option"

definition item0 :: "signal \<Rightarrow> string option" where "item0 s = fst s"
definition item1 :: "signal \<Rightarrow> string option" where "item1 s = fst (snd s)"
definition item2 :: "signal \<Rightarrow> string option" where "item2 s = snd (snd s)"

text \<open>
  One iteration of the \<open>strict\<close> loop of \<open>monitor\<close> (lines 285 to 301): the fail location
  and the transition into it. Python evaluates the callee before the arguments.
\<close>

definition strict_step ::
  "globals \<Rightarrow> signal list \<Rightarrow> int \<Rightarrow> nat \<Rightarrow> error + (element \<times> element)" where
  "strict_step g signals init_id i =
     (let fail_location_id = init_id + int (length signals) + int i + 1 in
      bindE (UppaalFactory g ''location'' location) (\<lambda>loc.
      bindE (py_replace (item2 (signals ! i)) ''<='' ''<'') (\<lambda>invariant.
      let l = loc fail_location_id (300 * int i) (- 200) (Some invariant)
                  (Some (''fail'' @ py_str (int i))) False in
      bindE (UppaalFactory g ''transition'' transition) (\<lambda>tr.
      bindE (if i = 0 then Inr None
             else bindE (py_replace (item1 (signals ! (i - 1))) ''>='' ''>'')
                    (\<lambda>gd. Inr (Some gd))) (\<lambda>guard.
      Inr (l, tr (init_id + int i) fail_location_id (int i * 300 + 100) (- 100)
                 guard (item0 (signals ! i)) None))))))"

definition monitor :: "globals \<Rightarrow> string \<Rightarrow> signal list \<Rightarrow> int \<Rightarrow> bool \<Rightarrow> error + element" where
  "monitor g monitor_name signals init_id strict =
     bindE (mapE (\<lambda>i. bindE (UppaalFactory g ''location'' location) (\<lambda>loc.
                    Inr (loc (init_id + int i) (300 * int i) 200 (item2 (signals ! i)) None False)))
              [0..<length signals]) (\<lambda>locations.
     bindE (UppaalFactory g ''location'' location) (\<lambda>loc.
     let locations = locations @
           [loc (init_id + int (length signals)) (300 * int (length signals)) 200 None
                (Some ''pass'') False] in
     bindE (mapE (\<lambda>i. bindE (UppaalFactory g ''transition'' transition) (\<lambda>tr.
                    Inr (tr (init_id + int i) (init_id + int i + 1) (int i * 300 + 100) 200
                            (item1 (signals ! i)) (item0 (signals ! i)) None)))
              [0..<length signals]) (\<lambda>transitions.
     bindE (if strict then mapE (strict_step g signals init_id) [0..<length signals]
            else Inr []) (\<lambda>fails.
     bindE (UppaalFactory g ''template'' template) (\<lambda>tmpl.
     Inr (tmpl monitor_name (locations @ map fst fails) init_id
               (transitions @ map snd fails) None None))))))"

definition strict_monitor :: "globals \<Rightarrow> string \<Rightarrow> signal list \<Rightarrow> int \<Rightarrow> error + element" where
  "strict_monitor g monitor_name signals init_id =
     bindE (UppaalFactory g ''monitor'' (monitor g)) (\<lambda>m. m monitor_name signals init_id True)"

text \<open>
  \<open>monitor_allpatterns\<close>. The dictionary \<open>edge_signal_dict\<close> is kept as the list of its
  items in insertion order: \<open>len\<close> is the number of items and \<open>values()\<close> their second
  components. The inner loop over the values carries the counter \<open>j\<close>.
\<close>

fun illegal_locations ::
  "globals \<Rightarrow> signal list \<Rightarrow> int \<Rightarrow> nat \<Rightarrow> nat \<Rightarrow> string list \<Rightarrow> nat \<Rightarrow> error + element list"
  where
  "illegal_locations g signals init_id k i [] j = Inr []"
| "illegal_locations g signals init_id k i (v # vs) j =
     (if item0 (signals ! i) \<noteq> Some (replace v ''!'' ''?'') then
        bindE (UppaalFactory g ''location'' location) (\<lambda>loc.
        bindE (illegal_locations g signals init_id k i vs (j + 1)) (\<lambda>rest.
        Inr (loc (init_id + int (length signals) + 1 + int i * (int k - 1) + int j)
                 (300 * int i) (500 + 100 * int j) None None False # rest)))
      else illegal_locations g signals init_id k i vs j)"

fun illegal_transitions ::
  "globals \<Rightarrow> signal list \<Rightarrow> int \<Rightarrow> nat \<Rightarrow> nat \<Rightarrow> string list \<Rightarrow> nat \<Rightarrow> error + element list"
  where
  "illegal_transitions g signals init_id k i [] j = Inr []"
| "illegal_transitions g signals init_id k i (v # vs) j =
     (if item0 (signals ! i) \<noteq> Some (replace v ''!'' ''?'') then
        bindE (UppaalFactory g ''transition'' transition) (\<lambda>tr.
        bindE (illegal_transitions g signals init_id k i vs (j + 1)) (\<lambda>rest.
        Inr (tr (init_id + int i)
                (init_id + int (length signals) + 1 + int i * (int k - 1) + int j)
                (int i * 300 + 100) 200 None (Some (replace v ''!'' ''?'')) None # rest)))
      else illegal_transitions g signals init_id k i vs j)"

definition monitor_allpatterns ::
  "globals \<Rightarrow> string \<Rightarrow> signal list \<Rightarrow> int \<Rightarrow> (string \<times> string) list \<Rightarrow> error + element"
  where
  "monitor_allpatterns g monitor_name signals init_id edge_signal_dict =
     bindE (mapE (\<lambda>i. bindE (UppaalFactory g ''location'' location) (\<lambda>loc.
                    Inr (loc (init_id + int i) (300 * int i) 200 None None False)))
              [0..<length signals]) (\<lambda>locations.
     bindE (UppaalFactory g ''location'' location) (\<lambda>loc.
     let locations = locations @
           [loc (init_id + int (length signals)) (300 * int (length signals)) 200 None
                (Some ''pass'') False] in
     bindE (mapE (\<lambda>i. illegal_locations g signals init_id (length edge_signal_dict) i
                         (map snd edge_signal_dict) 0)
              [0..<length signals]) (\<lambda>illegal.
     let locations = locations @ concat illegal in
     bindE (mapE (\<lambda>i. bindE (UppaalFactory g ''transition'' transition) (\<lambda>tr.
                    Inr (tr (init_id + int i) (init_id + int i + 1) (int i * 300 + 100) 200
                            None (item0 (signals ! i)) None)))
              [0..<length signals]) (\<lambda>transitions.
     bindE (mapE (\<lambda>i. illegal_transitions g signals init_id (length edge_signal_dict) i
                         (map snd edge_signal_dict) 0)
              [0..<length signals]) (\<lambda>illegal_tr.
     let transitions = transitions @ concat illegal_tr in
     bindE (UppaalFactory g ''template'' template) (\<lambda>tmpl.
     Inr (tmpl monitor_name locations init_id transitions None None)))))))"

text \<open>
  \<open>input\<close>: the class body defines the name twice; the second definition (line 388) replaces
  the first and is the method the class ends up with. It differs from \<open>monitor\<close> in the
  name of the tail location and in the fail transitions, which carry no synchronisation.
\<close>

definition input_strict_step ::
  "globals \<Rightarrow> signal list \<Rightarrow> int \<Rightarrow> nat \<Rightarrow> error + (element \<times> element)" where
  "input_strict_step g signals init_id i =
     (let fail_location_id = init_id + int (length signals) + int i + 1 in
      bindE (UppaalFactory g ''location'' location) (\<lambda>loc.
      bindE (py_replace (item2 (signals ! i)) ''<='' ''<'') (\<lambda>invariant.
      let l = loc fail_location_id (300 * int i) (- 200) (Some invariant)
                  (Some (''fail'' @ py_str (int i))) False in
      bindE (UppaalFactory g ''transition'' transition) (\<lambda>tr.
      bindE (if i = 0 then Inr None
             else bindE (py_replace (item1 (signals ! (i - 1))) ''>='' ''>'')
                    (\<lambda>gd. Inr (Some gd))) (\<lambda>guard.
      Inr (l, tr (init_id + int i) fail_location_id (int i * 300 + 100) (- 100)
                 guard None None))))))"

definition input :: "globals \<Rightarrow> string \<Rightarrow> signal list \<Rightarrow> int \<Rightarrow> bool \<Rightarrow> error + element" where
  "input g monitor_name signals init_id strict =
     bindE (mapE (\<lambda>i. bindE (UppaalFactory g ''location'' location) (\<lambda>loc.
                    Inr (loc (init_id + int i) (300 * int i) 200 (item2 (signals ! i)) None False)))
              [0..<length signals]) (\<lambda>locations.
     bindE (UppaalFactory g ''location'' location) (\<lambda>loc.
     let locations = locations @
           [loc (init_id + int (length signals)) (300 * int (length signals)) 200 None
                (Some ''Finish'') False] in
     bindE (mapE (\<lambda>i. bindE (UppaalFactory g ''transition'' transition) (\<lambda>tr.
                    Inr (tr (init_id + int i) (init_id + int i + 1) (int i * 300 + 100) 200
                            (item1 (signals ! i)) (item0 (signals ! i)) None)))
              [0..<length signals]) (\<lambda>transitions.
     bindE (if strict then mapE (input_strict_step g signals init_id) [0..<length signals]
            else Inr []) (\<lambda>fails.
     bindE (UppaalFactory g ''template'' template) (\<lambda>tmpl.
     Inr (tmpl monitor_name (locations @ map fst fails) init_id
               (transitions @ map snd fails) None None))))))"

section \<open>Reading a fragment tree\<close>

text \<open>
  What a consumer of the tree reads: an attribute of an element, its children with a given
  tag, and the text of its first label of a given kind.
\<close>

definition get_attr :: "element \<Rightarrow> string \<Rightarrow> string option" where
  "get_attr e k = map_of (elem_attrib e) k"

definition children_tagged :: "string \<Rightarrow> element \<Rightarrow> element list" where
  "children_tagged t e = filter (\<lambda>c. elem_tag c = t) (elem_children e)"

definition first_text :: "element list \<Rightarrow> string option" where
  "first_text cs = (case cs of [] \<Rightarrow> None | c # _ \<Rightarrow> elem_text c)"

definition first_ref :: "element list \<Rightarrow> string option" where
  "first_ref cs = (case cs of [] \<Rightarrow> None | c # _ \<Rightarrow> get_attr c ''ref'')"

definition label_text :: "string \<Rightarrow> element \<Rightarrow> string option" where
  "label_text kind e =
     first_text (filter (\<lambda>c. get_attr c ''kind'' = Some kind) (children_tagged ''label'' e))"

definition name_text :: "element \<Rightarrow> string option" where
  "name_text e = first_text (children_tagged ''name'' e)"

definition location_id :: "element \<Rightarrow> string option" where
  "location_id l = get_attr l ''id''"

definition source_ref :: "element \<Rightarrow> string option" where
  "source_ref tr = first_ref (children_tagged ''source'' tr)"

definition target_ref :: "element \<Rightarrow> string option" where
  "target_ref tr = first_ref (children_tagged ''target'' tr)"








text \<open>Reading a decimal numeral back, used to show that \<open>str\<close> is injective.\<close>

definition digit_val :: "char \<Rightarrow> nat" where
  "digit_val c = of_char c - 48"

definition nat_of_str :: "string \<Rightarrow> nat" where
  "nat_of_str s = foldl (\<lambda>a c. 10 * a + digit_val c) 0 s"

section \<open>Basic facts\<close>

lemma bindE_simps [simp]: "bindE (Inl e) f = Inl e" "bindE (Inr x) f = f x"
  by (simp_all add: bindE_def)

lemma mapE_Inr [simp]: "mapE (\<lambda>x. Inr (f x)) xs = Inr (map f xs)"
  by (induction xs) simp_all

lemma mapE_Inl: "mapE (\<lambda>x. Inl e) xs = (if xs = [] then Inr [] else Inl e)"
  by (cases xs) simp_all




lemma UppaalFactory_unbound:
  "g ''UppaalFactory'' = None \<Longrightarrow> UppaalFactory g name m = Inl (NameError ''UppaalFactory'')"
  by (simp add: UppaalFactory_def lookup_global_def)

lemma module_globals_unbound: "module_globals ''UppaalFactory'' = None"
  by (simp add: module_globals_def)


subsection \<open>\<open>str\<close> is injective on integers\<close>

lemma digit_char_range: "d < 10 \<Longrightarrow> digit_char d \<in> set ''0123456789''"
  unfolding digit_char_def by (rule nth_mem) simp

lemma digit_val_char: "d < 10 \<Longrightarrow> digit_val (digit_char d) = d"
proof -
  assume "d < 10"
  then consider "d = 0" | "d = 1" | "d = 2" | "d = 3" | "d = 4"
    | "d = 5" | "d = 6" | "d = 7" | "d = 8" | "d = 9"
    by atomize_elim arith
  then show ?thesis by cases (simp_all add: digit_val_def digit_char_def)
qed

lemma nat_of_str_nat: "nat_of_str (str_nat n) = n"
proof (induction n rule: str_nat.induct)
  case (1 n)
  show ?case
  proof (cases "n < 10")
    case True
    then show ?thesis by (simp add: str_nat.simps [of n] nat_of_str_def digit_val_char)
  next
    case False
    with 1 have "nat_of_str (str_nat (n div 10)) = n div 10" by simp
    with False show ?thesis
      by (simp add: str_nat.simps [of n] nat_of_str_def digit_val_char)
  qed
qed

lemma str_nat_inj: "str_nat m = str_nat n \<Longrightarrow> m = n"
  by (metis nat_of_str_nat)

lemma str_nat_digits: "set (str_nat n) \<subseteq> set ''0123456789''"
proof (induction n rule: str_nat.induct)
  case (1 n)
  show ?case
  proof (cases "n < 10")
    case True
    then show ?thesis using digit_char_range [of n] by (simp add: str_nat.simps [of n])
  next
    case False
    with 1 have "set (str_nat (n div 10)) \<subseteq> set ''0123456789''" by simp
    moreover have "digit_char (n mod 10) \<in> set ''0123456789''"
      by (rule digit_char_range) simp
    ultimately show ?thesis using False by (simp add: str_nat.simps [of n])
  qed
qed

lemma str_nat_no_minus: "str_nat n \<noteq> CHR ''-'' # s"
proof
  assume "str_nat n = CHR ''-'' # s"
  then have "CHR ''-'' \<in> set (str_nat n)" by simp
  with str_nat_digits [of n] show False by auto
qed

lemma py_str_inj: "py_str a = py_str b \<Longrightarrow> a = b"
  using str_nat_no_minus [of "nat b"] str_nat_no_minus [of "nat a"]
  by (auto simp: py_str_def split: if_splits dest!: str_nat_inj sym [of "_ # _" "str_nat _"])

lemma id_str_inj [simp]: "id_str a = id_str b \<longleftrightarrow> a = b"
  by (auto simp: id_str_def dest: py_str_inj)

subsection \<open>The children of a template\<close>


subsection \<open>The operations when the name \<open>UppaalFactory\<close> is not bound\<close>

lemma queries_unbound:
  assumes "g ''UppaalFactory'' = None"
  shows "queries g qs = (if qs = [] then Inr (Element ''queries'' [] None [])
                         else Inl (NameError ''UppaalFactory''))"
  using assms by (simp add: queries_def UppaalFactory_unbound mapE_Inl)

lemma monitor_unbound:
  assumes "g ''UppaalFactory'' = None"
  shows "monitor g name S base strict = Inl (NameError ''UppaalFactory'')"
  using assms by (simp add: monitor_def UppaalFactory_unbound mapE_Inl)

lemma strict_monitor_unbound:
  assumes "g ''UppaalFactory'' = None"
  shows "strict_monitor g name S base = Inl (NameError ''UppaalFactory'')"
  using assms by (simp add: strict_monitor_def UppaalFactory_unbound)

lemma monitor_allpatterns_unbound:
  assumes "g ''UppaalFactory'' = None"
  shows "monitor_allpatterns g name S base d = Inl (NameError ''UppaalFactory'')"
  using assms by (simp add: monitor_allpatterns_def UppaalFactory_unbound mapE_Inl)

lemma input_unbound:
  assumes "g ''UppaalFactory'' = None"
  shows "input g name S base strict = Inl (NameError ''UppaalFactory'')"
  using assms by (simp add: input_def UppaalFactory_unbound mapE_Inl)

section \<open>The template builder\<close>

text \<open>
  Claim C7 says that a template built with a declaration argument has a \<open>declaration\<close>
  child whose text is that declaration string. The children do come in the order name,
  parameter, declaration, locations, init, transitions (\<open>template_children\<close>), but the text
  of the declaration child is the \<open>parameter\<close> argument: with no parameter and the
  declaration \<open>clock t;\<close> the child has no text at all, and with the parameter \<open>int n\<close> its
  text is \<open>int n\<close>. The static method \<open>declaration\<close> of the same class does keep the string.
\<close>

theorem template_declaration_text_is_parameter:
  "template ''T'' [] 0 [] None (Some ''clock t;'') =
     Element ''template'' [] None
       [Element ''name'' [] (Some ''T'') [],
        Element ''declaration'' [] None [],
        Element ''init'' [(''ref'', ''id0'')] None []] \<and>
   template ''T'' [] 0 [] (Some ''int n'') (Some ''clock t;'') =
     Element ''template'' [] None
       [Element ''name'' [] (Some ''T'') [],
        Element ''parameter'' [] (Some ''int n'') [],
        Element ''declaration'' [] (Some ''int n'') [],
        Element ''init'' [(''ref'', ''id0'')] None []] \<and>
   declaration_elem ''clock t;'' = Element ''declaration'' [] (Some ''clock t;'') []"
  by code_simp

section \<open>The module as it is loaded\<close>

text \<open>
  Claim C9: the bodies of \<open>queries\<close>, \<open>monitor\<close>, \<open>strict_monitor\<close>,
  \<open>monitor_allpatterns\<close> and \<open>input\<close> refer to the name \<open>UppaalFactory\<close>, which the
  module does not bind (its class is \<open>UFactory\<close>). In the module's own namespace every call
  that reaches such a reference raises \<open>NameError\<close>: \<open>queries\<close> on every non-empty list
  (on the empty list the loop body is never run and the empty \<open>queries\<close> element is
  returned), and the four other operations on every input.
\<close>

theorem unbound_name_raises_NameError:
  "module_globals ''UppaalFactory'' = None \<and>
   (qs \<noteq> [] \<longrightarrow> queries module_globals qs = Inl (NameError ''UppaalFactory'')) \<and>
   queries module_globals [] = Inr (Element ''queries'' [] None []) \<and>
   monitor module_globals name S base strict = Inl (NameError ''UppaalFactory'') \<and>
   strict_monitor module_globals name S base = Inl (NameError ''UppaalFactory'') \<and>
   monitor_allpatterns module_globals name S base d = Inl (NameError ''UppaalFactory'') \<and>
   input module_globals name S base strict = Inl (NameError ''UppaalFactory'')"
  by (simp add: module_globals_unbound queries_unbound monitor_unbound strict_monitor_unbound
      monitor_allpatterns_unbound input_unbound)

theorem unbound_name_raises_NameError_witness:
  "[''E<> Output.pass''] \<noteq> [] \<and>
   queries module_globals [''E<> Output.pass''] = Inl (NameError ''UppaalFactory'') \<and>
   monitor module_globals ''Monitor'' [(Some ''sigA?'', Some ''gclk>=5'', Some ''gclk<=10'')] 1 False
     = Inl (NameError ''UppaalFactory'')"
  using unbound_name_raises_NameError
    [of "[''E<> Output.pass'']" "''Monitor''"
        "[(Some ''sigA?'', Some ''gclk>=5'', Some ''gclk<=10'')]" 1 False]
  by simp

section \<open>The chain synthesizers when the name resolves to the class\<close>

text \<open>
  From here on the namespace binds \<open>UppaalFactory\<close> to the class \<open>UFactory\<close>
  (\<open>bound_to_class\<close>), as the docstrings of the class assume.
\<close>

subsection \<open>What the builders' results read as\<close>

lemma location_reads [simp]:
  "elem_tag (location i x y invariant name c) = ''location''"
  "location_id (location i x y invariant name c) = Some (id_str i)"
  "get_attr (location i x y invariant name c) ''x'' = Some (py_str x)"
  "get_attr (location i x y invariant name c) ''y'' = Some (py_str y)"
  "name_text (location i x y invariant name c) = name"
  "label_text ''invariant'' (location i x y invariant name c) = invariant"
  by (simp_all add: location_def location_id_def get_attr_def name_text_def label_text_def
      children_tagged_def first_text_def split: option.split)

lemma transition_reads [simp]:
  "elem_tag (transition s t x y guard sync reset) = ''transition''"
  "source_ref (transition s t x y guard sync reset) = Some (id_str s)"
  "target_ref (transition s t x y guard sync reset) = Some (id_str t)"
  "label_text ''guard'' (transition s t x y guard sync reset) = guard"
  "label_text ''synchronisation'' (transition s t x y guard sync reset) = sync"
  "label_text ''assignment'' (transition s t x y guard sync reset) = reset"
  by (simp_all add: transition_def source_ref_def target_ref_def get_attr_def label_text_def
      children_tagged_def first_text_def first_ref_def split: option.split)


subsection \<open>The plain chain\<close>









subsection \<open>The strict chain\<close>

















subsection \<open>The all-patterns chain\<close>











subsection \<open>The ids of the trap grid\<close>














end
